theory Spec2Isabelle
  imports Main "HOL-Library.Word"
begin

section \<open>The sequencer batch driver and the submission service\<close>

text \<open>
  A shallow embedding of \<^verbatim>\<open>go/batch-submitter/drivers/sequencer/driver.go\<close>
  (\<^verbatim>\<open>GetBatchBlockRange\<close>, \<open>SubmitBatchTx\<close>) and of one polling cycle of
  \<^verbatim>\<open>Service.eventLoop\<close>.

  Go's \<^verbatim>\<open>*big.Int\<close> is \<open>int\<close>, \<^verbatim>\<open>uint64\<close> is \<open>64 word\<close>, a byte slice is a
  list of \<open>8 word\<close>. Every \<^verbatim>\<open>return nil, err\<close> of the source is an \<open>Inl\<close> branch; the
  constructor of the error says which call of the source produced it, the string is the
  error value that the source passes through unchanged.
\<close>

type_synonym byte = "8 word"
type_synonym uint64 = "64 word"

datatype error =
    TotalElementsErr string
  | HeaderErr string
  | InvalidRange int int
  | BlockFetchErr string
  | BatchParamsErr string
  | SerializeErr string
  | TransactorErr string
  | TransactErr string

text \<open>
  What a call leaves behind: the log lines, the metric updates and the one call that
  publishes a transaction. Metrics that record wall-clock durations
  (\<^verbatim>\<open>BatchTxBuildTime\<close>, \<^verbatim>\<open>BatchConfirmationTime\<close>, \<^verbatim>\<open>SubmissionTimestamp\<close>) are left out; the
  other metric events carry the integer the source converts to a float, or nothing where
  the value is read from a transaction or a receipt.
\<close>

datatype event =
    LogSubmittingBatchTx int int int
  | LogPrunedBatch nat nat
  | ObserveNumElementsPerBatch nat
  | LogBatchConstructed nat nat
  | EvRawTransact int int "byte list"
  | LogBalanceError string
  | SetETHBalance int
  | LogFetchingRange
  | LogRangeError error
  | LogNoUpdates int int
  | LogBlockRange int int
  | LogNonceError string
  | LogAttemptingBatchTx int int int int
  | LogSubmittedBatchTx int int int int
  | ObserveBatchSizeInBytes
  | LogPublishError string
  | IncFailedSubmissions
  | LogPublished
  | IncBatchesSubmitted
  | SetSubmissionGasUsed

record Config =
  Name :: string
  BlockOffset :: uint64
  MaxTxSize :: uint64

text \<open>
  The collaborators of the driver whose code is not part of the driver file are
  parameters: the two ledger clients, the contract binding, the batch element type with
  its two methods, the constant \<^verbatim>\<open>TxLenSize\<close>, the batch encoder
  (\<^verbatim>\<open>GenSequencerBatchParams\<close>, \<^verbatim>\<open>Serialize\<close>), the 4-byte method selector and the
  transactor. The ledger reads are functions of their argument only: one call of the
  driver sees one snapshot of both ledgers.
\<close>

record ('blk, 'elem, 'params, 'opts, 'tx) Driver =
  GetTotalElements :: "string + int"
  HeaderByNumber :: "string + int"
  BlockByNumber :: "int \<Rightarrow> string + 'blk"
  BatchElementFromBlock :: "'blk \<Rightarrow> 'elem"
  IsSequencerTx :: "'elem \<Rightarrow> bool"
  TxSize :: "'elem \<Rightarrow> nat"
  TxLenSize :: nat
  GenSequencerBatchParams :: "uint64 \<Rightarrow> uint64 \<Rightarrow> 'elem list \<Rightarrow> string + 'params"
  Serialize :: "'params \<Rightarrow> string + byte list"
  appendSequencerBatchID :: "byte list"
  NewKeyedTransactorWithChainID :: "string + 'opts"
  RawTransact :: "'opts \<Rightarrow> int \<Rightarrow> int \<Rightarrow> byte list \<Rightarrow> string + 'tx"

subsection \<open>GetBatchBlockRange\<close>

definition GetBatchBlockRange ::
  "('blk, 'elem, 'params, 'opts, 'tx) Driver \<Rightarrow> Config \<Rightarrow> error + (int \<times> int)" where
  "GetBatchBlockRange d cfg =
     (let blockOffset = uint (BlockOffset cfg) in
      case GetTotalElements d of
        Inl err \<Rightarrow> Inl (TotalElementsErr err)
      | Inr totalElements \<Rightarrow>
          let start = totalElements + blockOffset in
          (case HeaderByNumber d of
             Inl err \<Rightarrow> Inl (HeaderErr err)
           | Inr number \<Rightarrow>
               let end' = number + 1 in
               if start > end' then Inl (InvalidRange end' start)
               else Inr (start, end')))"

subsection \<open>SubmitBatchTx: the accumulation loop\<close>

text \<open>
  The first loop of \<open>SubmitBatchTx\<close>, from height \<open>i\<close> up to \<open>end'\<close> (exclusive), with the
  slice \<open>batchElements\<close> and the running total \<open>totalTxSize\<close> as loop state. The sum
  \<^verbatim>\<open>totalTxSize+uint64(TxLenSize+txLen)\<close> is a \<^verbatim>\<open>uint64\<close> sum and wraps.
\<close>

function accumulate ::
  "('blk, 'elem, 'params, 'opts, 'tx) Driver \<Rightarrow> Config \<Rightarrow> int \<Rightarrow> int \<Rightarrow>
     'elem list \<Rightarrow> uint64 \<Rightarrow> error + ('elem list \<times> uint64)" where
  "accumulate d cfg i end' batchElements totalTxSize =
     (if i < end' then
        (case BlockByNumber d i of
           Inl err \<Rightarrow> Inl (BlockFetchErr err)
         | Inr block \<Rightarrow>
             (let batchElement = BatchElementFromBlock d block in
              if IsSequencerTx d batchElement then
                (let txLen = TxSize d batchElement in
                 if totalTxSize + word_of_nat (TxLenSize d + txLen) > MaxTxSize cfg
                 then Inr (batchElements, totalTxSize)
                 else accumulate d cfg (i + 1) end' (batchElements @ [batchElement])
                        (totalTxSize + word_of_nat (TxLenSize d + txLen)))
              else accumulate d cfg (i + 1) end' (batchElements @ [batchElement])
                     totalTxSize))
      else Inr (batchElements, totalTxSize))"
  by pat_completeness auto
termination
  by (relation "measure (\<lambda>(d, cfg, i, end', batchElements, totalTxSize). nat (end' - i))")
    auto

declare accumulate.simps [simp del]

subsection \<open>SubmitBatchTx: the serialize-and-prune loop\<close>

text \<open>The slice expression of the pruning branch: the first \<open>(oldLen * 9) / 10\<close> elements.\<close>

definition prune :: "'a list \<Rightarrow> 'a list" where
  "prune batchElements =
     (let oldLen = length batchElements;
          newBatchElementsLen = (oldLen * 9) div 10
      in take newBatchElementsLen batchElements)"

text \<open>
  The second loop, \<^verbatim>\<open>for { ... }\<close>, has no bound in the source: the model returns
  \<open>None\<close> exactly when the loop never leaves. \<^verbatim>\<open>len(batchCallData)\<close> is a non-negative
  \<^verbatim>\<open>int\<close>, so its conversion to \<^verbatim>\<open>uint64\<close> is exact and the comparison is the one of
  natural numbers.
\<close>

partial_function (option) pruneLoop ::
  "('blk, 'elem, 'params, 'opts, 'tx) Driver \<Rightarrow> Config \<Rightarrow> uint64 \<Rightarrow> 'elem list \<Rightarrow>
     int \<Rightarrow> int \<Rightarrow> event list \<Rightarrow> ((error + 'tx) \<times> event list) option" where
  "pruneLoop d cfg shouldStartAt batchElements nonce gasPrice w =
     (case GenSequencerBatchParams d shouldStartAt (BlockOffset cfg) batchElements of
        Inl err \<Rightarrow> Some (Inl (BatchParamsErr err), w)
      | Inr batchParams \<Rightarrow>
          (case Serialize d batchParams of
             Inl err \<Rightarrow> Some (Inl (SerializeErr err), w)
           | Inr batchArguments \<Rightarrow>
               (let batchCallData = appendSequencerBatchID d @ batchArguments in
                if length batchCallData > unat (MaxTxSize cfg) then
                  pruneLoop d cfg shouldStartAt (prune batchElements) nonce gasPrice
                    (w @ [LogPrunedBatch (length batchElements)
                            (length (prune batchElements))])
                else
                  (let w' = w @ [ObserveNumElementsPerBatch (length batchElements),
                                 LogBatchConstructed (length batchElements)
                                   (length batchCallData)]
                   in case NewKeyedTransactorWithChainID d of
                        Inl err \<Rightarrow> Some (Inl (TransactorErr err), w')
                      | Inr opts \<Rightarrow>
                          (case RawTransact d opts nonce gasPrice batchCallData of
                             Inl err \<Rightarrow>
                               Some (Inl (TransactErr err),
                                     w' @ [EvRawTransact nonce gasPrice batchCallData])
                           | Inr tx \<Rightarrow>
                               Some (Inr tx,
                                     w' @ [EvRawTransact nonce gasPrice batchCallData]))))))"

text \<open>
  \<open>SubmitBatchTx\<close>. \<^verbatim>\<open>start.Uint64()\<close> is the low 64 bits of the absolute value of
  \<open>start\<close>.
\<close>

definition SubmitBatchTx ::
  "('blk, 'elem, 'params, 'opts, 'tx) Driver \<Rightarrow> Config \<Rightarrow> int \<Rightarrow> int \<Rightarrow> int \<Rightarrow> int \<Rightarrow>
     event list \<Rightarrow> ((error + 'tx) \<times> event list) option" where
  "SubmitBatchTx d cfg start end' nonce gasPrice w =
     (let w1 = w @ [LogSubmittingBatchTx start end' gasPrice] in
      case accumulate d cfg start end' [] 0 of
        Inl err \<Rightarrow> Some (Inl err, w1)
      | Inr (batchElements, totalTxSize) \<Rightarrow>
          (let shouldStartAt = word_of_int \<bar>start\<bar> in
           pruneLoop d cfg shouldStartAt batchElements nonce gasPrice w1))"

subsection \<open>One polling cycle of the service\<close>

text \<open>
  The collaborators of the service: the primary-ledger client and the transaction
  manager, which receives the closure \<open>sendTx\<close> and calls it as often as it decides.
\<close>

record ('tx, 'receipt) Service =
  BalanceAt :: "string + int"
  NonceAt :: "string + uint64"
  Send :: "(int \<Rightarrow> event list \<Rightarrow> ((error + 'tx) \<times> event list) option) \<Rightarrow>
           event list \<Rightarrow> ((string + 'receipt) \<times> event list) option"

text \<open>The closure \<open>sendTx\<close> that \<open>eventLoop\<close> hands to the transaction manager.\<close>

definition sendTx ::
  "('blk, 'elem, 'params, 'opts, 'tx) Driver \<Rightarrow> Config \<Rightarrow> int \<Rightarrow> int \<Rightarrow> int \<Rightarrow> int \<Rightarrow>
     event list \<Rightarrow> ((error + 'tx) \<times> event list) option" where
  "sendTx d cfg start end' nonce gasPrice w =
     (case SubmitBatchTx d cfg start end' nonce gasPrice
             (w @ [LogAttemptingBatchTx start end' nonce gasPrice]) of
        None \<Rightarrow> None
      | Some (Inl err, w') \<Rightarrow> Some (Inl err, w')
      | Some (Inr tx, w') \<Rightarrow>
          Some (Inr tx, w' @ [LogSubmittedBatchTx start end' nonce gasPrice,
                              ObserveBatchSizeInBytes]))"

text \<open>
  The body of the \<^verbatim>\<open>time.After\<close> case of \<open>eventLoop\<close>: one cycle, from the event list
  before it to the event list after it (\<open>None\<close> when the transaction manager never
  returns).
\<close>

definition pollCycle ::
  "('tx, 'receipt) Service \<Rightarrow> ('blk, 'elem, 'params, 'opts, 'tx) Driver \<Rightarrow> Config \<Rightarrow>
     event list \<Rightarrow> event list option" where
  "pollCycle s d cfg w =
     (case BalanceAt s of
        Inl err \<Rightarrow> Some (w @ [LogBalanceError err])
      | Inr balance \<Rightarrow>
          (let w1 = w @ [SetETHBalance balance, LogFetchingRange] in
           case GetBatchBlockRange d cfg of
             Inl err \<Rightarrow> Some (w1 @ [LogRangeError err])
           | Inr (start, end') \<Rightarrow>
               if start = end' then Some (w1 @ [LogNoUpdates start end'])
               else
                 (let w2 = w1 @ [LogBlockRange start end'] in
                  case NonceAt s of
                    Inl err \<Rightarrow> Some (w2 @ [LogNonceError err])
                  | Inr nonce64 \<Rightarrow>
                      (let nonce = uint nonce64 in
                       case Send s (sendTx d cfg start end' nonce) w2 of
                         None \<Rightarrow> None
                       | Some (Inl err, w3) \<Rightarrow>
                           Some (w3 @ [LogPublishError err, IncFailedSubmissions])
                       | Some (Inr receipt, w3) \<Rightarrow>
                           Some (w3 @ [LogPublished, IncBatchesSubmitted,
                                       SetSubmissionGasUsed])))))"


subsection \<open>Derived views of the two loops\<close>

text \<open>
  The running total that the accumulation loop computes for a list of batch elements:
  \<open>TxLenSize + txLen\<close> for every element with \<open>IsSequencerTx\<close>, nothing for the others.
\<close>

definition estimate :: "('blk, 'elem, 'params, 'opts, 'tx) Driver \<Rightarrow> 'elem list \<Rightarrow> nat" where
  "estimate d zs =
     sum_list (map (\<lambda>x. TxLenSize d + TxSize d x) (filter (IsSequencerTx d) zs))"

text \<open>
  What one run of the accumulation loop from height \<open>i\<close> with running total \<open>t\<close> appends
  (\<open>zs\<close>) and the total it ends with (\<open>t'\<close>).
\<close>

definition accumulated ::
  "('blk, 'elem, 'params, 'opts, 'tx) Driver \<Rightarrow> Config \<Rightarrow> int \<Rightarrow> int \<Rightarrow> uint64 \<Rightarrow>
     'elem list \<Rightarrow> uint64 \<Rightarrow> bool" where
  "accumulated d cfg i end' t zs t' \<longleftrightarrow>
     int (length zs) \<le> max 0 (end' - i) \<and>
     (\<forall>j<length zs. \<exists>b. BlockByNumber d (i + int j) = Inr b \<and>
                          zs ! j = BatchElementFromBlock d b) \<and>
     t' = t + word_of_nat (estimate d zs) \<and>
     (t \<le> MaxTxSize cfg \<longrightarrow> t' \<le> MaxTxSize cfg) \<and>
     (int (length zs) < end' - i \<longrightarrow>
        (\<exists>b. BlockByNumber d (i + int (length zs)) = Inr b \<and>
             IsSequencerTx d (BatchElementFromBlock d b) \<and>
             MaxTxSize cfg <
               t' + word_of_nat (TxLenSize d + TxSize d (BatchElementFromBlock d b))))"

text \<open>The test of the pruning branch: the batch serializes and its calldata is too long.\<close>

definition overBudget ::
  "('blk, 'elem, 'params, 'opts, 'tx) Driver \<Rightarrow> Config \<Rightarrow> uint64 \<Rightarrow> 'elem list \<Rightarrow> bool" where
  "overBudget d cfg shouldStartAt batchElements =
     (case GenSequencerBatchParams d shouldStartAt (BlockOffset cfg) batchElements of
        Inl err \<Rightarrow> False
      | Inr batchParams \<Rightarrow>
          (case Serialize d batchParams of
             Inl err \<Rightarrow> False
           | Inr batchArguments \<Rightarrow>
               length (appendSequencerBatchID d @ batchArguments) > unat (MaxTxSize cfg)))"

text \<open>The iteration of the second loop that leaves it: every branch but the pruning one.\<close>

definition finish ::
  "('blk, 'elem, 'params, 'opts, 'tx) Driver \<Rightarrow> Config \<Rightarrow> uint64 \<Rightarrow> 'elem list \<Rightarrow>
     int \<Rightarrow> int \<Rightarrow> event list \<Rightarrow> (error + 'tx) \<times> event list" where
  "finish d cfg shouldStartAt batchElements nonce gasPrice w =
     (case GenSequencerBatchParams d shouldStartAt (BlockOffset cfg) batchElements of
        Inl err \<Rightarrow> (Inl (BatchParamsErr err), w)
      | Inr batchParams \<Rightarrow>
          (case Serialize d batchParams of
             Inl err \<Rightarrow> (Inl (SerializeErr err), w)
           | Inr batchArguments \<Rightarrow>
               (let batchCallData = appendSequencerBatchID d @ batchArguments;
                    w' = w @ [ObserveNumElementsPerBatch (length batchElements),
                              LogBatchConstructed (length batchElements)
                                (length batchCallData)]
                in case NewKeyedTransactorWithChainID d of
                     Inl err \<Rightarrow> (Inl (TransactorErr err), w')
                   | Inr opts \<Rightarrow>
                       (case RawTransact d opts nonce gasPrice batchCallData of
                          Inl err \<Rightarrow>
                            (Inl (TransactErr err),
                             w' @ [EvRawTransact nonce gasPrice batchCallData])
                        | Inr tx \<Rightarrow>
                            (Inr tx, w' @ [EvRawTransact nonce gasPrice batchCallData])))))"

text \<open>The log lines of \<open>m\<close> pruning steps that start from \<open>xs\<close>.\<close>

fun pruneLogs :: "nat \<Rightarrow> 'a list \<Rightarrow> event list" where
  "pruneLogs 0 xs = []"
| "pruneLogs (Suc m) xs =
     LogPrunedBatch (length xs) (length (prune xs)) # pruneLogs m (prune xs)"

text \<open>The transactions handed to \<^verbatim>\<open>RawTransact\<close>, in order: nonce, gas price, calldata.\<close>

fun published :: "event list \<Rightarrow> (int \<times> int \<times> byte list) list" where
  "published [] = []"
| "published (EvRawTransact nonce gasPrice batchCallData # w) =
     (nonce, gasPrice, batchCallData) # published w"
| "published (e # w) = published w"

text \<open>
  The errors \<open>SubmitBatchTx\<close> returns before it reaches \<^verbatim>\<open>RawTransact\<close>: block
  fetching, batch-parameter generation, serialization, transactor construction.
\<close>

fun beforeTransact :: "error \<Rightarrow> bool" where
  "beforeTransact (BlockFetchErr e) = True"
| "beforeTransact (BatchParamsErr e) = True"
| "beforeTransact (SerializeErr e) = True"
| "beforeTransact (TransactorErr e) = True"
| "beforeTransact e = False"

subsection \<open>A concrete instance\<close>

text \<open>
  A small secondary ledger to evaluate the definitions on. A block is a pair: whether
  its transaction is locally sequenced, and the size of that transaction. The encoder
  of the instance writes an 11-byte header and \<open>TxLenSize + txLen\<close> bytes for every
  locally-sequenced element; the transactor returns nonce, gas price and calldata.
\<close>

type_synonym exampleBlock = "bool \<times> nat"

definition exampleDriver ::
  "int \<Rightarrow> exampleBlock list \<Rightarrow>
     (exampleBlock, exampleBlock, uint64 \<times> exampleBlock list, unit,
      int \<times> int \<times> byte list) Driver" where
  "exampleDriver totalElements chain =
     \<lparr> GetTotalElements = Inr totalElements,
       HeaderByNumber = Inr (int (length chain) - 1),
       BlockByNumber =
         (\<lambda>i. if 0 \<le> i \<and> i < int (length chain) then Inr (chain ! nat i)
              else Inl ''not found''),
       BatchElementFromBlock = (\<lambda>b. b),
       IsSequencerTx = fst,
       TxSize = snd,
       TxLenSize = 3,
       GenSequencerBatchParams = (\<lambda>shouldStartAt blockOffset xs.
         Inr (shouldStartAt - blockOffset, xs)),
       Serialize = (\<lambda>(shouldStartAt, xs).
         Inr (replicate (11 + sum_list (map (\<lambda>x. 3 + snd x) (filter fst xs))) 0)),
       appendSequencerBatchID = [0xd0, 0xf8, 0x93, 0x44],
       NewKeyedTransactorWithChainID = Inr (),
       RawTransact = (\<lambda>opts nonce gasPrice batchCallData.
         Inr (nonce, gasPrice, batchCallData)) \<rparr>"

definition exampleChain :: "exampleBlock list" where
  "exampleChain = [(True, 10), (False, 0), (True, 10), (True, 10), (True, 10)]"

definition exampleConfig :: "nat \<Rightarrow> Config" where
  "exampleConfig maxTxSize =
     \<lparr> Name = ''Sequencer'', BlockOffset = 0, MaxTxSize = word_of_nat maxTxSize \<rparr>"

text \<open>A transaction manager that calls the closure once, at gas price 1.\<close>

definition exampleService ::
  "string + int \<Rightarrow> (int \<times> int \<times> byte list, unit) Service" where
  "exampleService balance =
     \<lparr> BalanceAt = balance,
       NonceAt = Inr 7,
       Send = (\<lambda>f w. case f 1 w of
                        None \<Rightarrow> None
                      | Some (Inl err, w') \<Rightarrow> Some (Inl ''send failed'', w')
                      | Some (Inr tx, w') \<Rightarrow> Some (Inr (), w')) \<rparr>"

section \<open>Properties\<close>

subsection \<open>The accumulation loop\<close>

lemma accumulated_done: "\<not> i < end' \<Longrightarrow> accumulated d cfg i end' t [] t"
  by (simp add: accumulated_def estimate_def)

lemma accumulated_stop:
  "BlockByNumber d i = Inr b \<Longrightarrow> IsSequencerTx d (BatchElementFromBlock d b) \<Longrightarrow>
   MaxTxSize cfg < t + word_of_nat (TxLenSize d + TxSize d (BatchElementFromBlock d b)) \<Longrightarrow>
   accumulated d cfg i end' t [] t"
  by (simp add: accumulated_def estimate_def)

lemma accumulated_Cons:
  assumes lt: "i < end'"
    and blk: "BlockByNumber d i = Inr b"
    and x: "x = BatchElementFromBlock d b"
    and t2: "t2 = (if IsSequencerTx d x then t + word_of_nat (TxLenSize d + TxSize d x) else t)"
    and fit: "IsSequencerTx d x \<Longrightarrow>
                \<not> MaxTxSize cfg < t + word_of_nat (TxLenSize d + TxSize d x)"
    and rest: "accumulated d cfg (i + 1) end' t2 zs t'"
  shows "accumulated d cfg i end' t (x # zs) t'"
proof -
  from rest have len: "int (length zs) \<le> max 0 (end' - (i + 1))"
    and nth: "\<And>j. j < length zs \<Longrightarrow> \<exists>b. BlockByNumber d (i + 1 + int j) = Inr b \<and>
                          zs ! j = BatchElementFromBlock d b"
    and tot: "t' = t2 + word_of_nat (estimate d zs)"
    and le: "t2 \<le> MaxTxSize cfg \<Longrightarrow> t' \<le> MaxTxSize cfg"
    and stop: "int (length zs) < end' - (i + 1) \<Longrightarrow>
        (\<exists>b. BlockByNumber d (i + 1 + int (length zs)) = Inr b \<and>
             IsSequencerTx d (BatchElementFromBlock d b) \<and>
             MaxTxSize cfg <
               t' + word_of_nat (TxLenSize d + TxSize d (BatchElementFromBlock d b)))"
    unfolding accumulated_def by blast+
  have c1: "int (length (x # zs)) \<le> max 0 (end' - i)"
    using len lt by simp
  have c2: "\<exists>b. BlockByNumber d (i + int j) = Inr b \<and> (x # zs) ! j = BatchElementFromBlock d b"
    if "j < length (x # zs)" for j
  proof (cases j)
    case 0
    then show ?thesis using blk x by simp
  next
    case (Suc k)
    with that have "k < length zs" by simp
    from nth[OF this] Suc show ?thesis by (simp add: ac_simps)
  qed
  have c3: "t' = t + word_of_nat (estimate d (x # zs))"
    using tot t2 by (simp add: estimate_def)
  have c4: "t' \<le> MaxTxSize cfg" if "t \<le> MaxTxSize cfg"
  proof -
    have "t2 \<le> MaxTxSize cfg"
      using that fit t2 by (cases "IsSequencerTx d x") (simp_all add: not_less)
    then show ?thesis by (rule le)
  qed
  have c5: "\<exists>b. BlockByNumber d (i + int (length (x # zs))) = Inr b \<and>
             IsSequencerTx d (BatchElementFromBlock d b) \<and>
             MaxTxSize cfg <
               t' + word_of_nat (TxLenSize d + TxSize d (BatchElementFromBlock d b))"
    if "int (length (x # zs)) < end' - i"
  proof -
    from that have "int (length zs) < end' - (i + 1)" by simp
    from stop[OF this] show ?thesis by (simp add: ac_simps)
  qed
  show ?thesis
    unfolding accumulated_def using c1 c2 c3 c4 c5 by blast
qed

lemma accumulate_accumulated:
  "accumulate d cfg i end' acc t = Inr (ys, t') \<Longrightarrow>
   \<exists>zs. ys = acc @ zs \<and> accumulated d cfg i end' t zs t'"
proof (induction d cfg i end' acc t rule: accumulate.induct)
  case (1 d cfg i end' acc t)
  note ret = "1.prems"[unfolded accumulate.simps[of d cfg i end' acc t]]
  show ?case
  proof (cases "i < end'")
    case False
    with ret have "ys = acc" "t' = t" by simp_all
    with False show ?thesis by (simp add: accumulated_done)
  next
    case lt: True
    show ?thesis
    proof (cases "BlockByNumber d i")
      case (Inl err)
      with ret lt show ?thesis by simp
    next
      case (Inr b)
      define x where "x = BatchElementFromBlock d b"
      show ?thesis
      proof (cases "IsSequencerTx d x")
        case seq: True
        show ?thesis
        proof (cases "MaxTxSize cfg < t + word_of_nat (TxLenSize d + TxSize d x)")
          case True
          with ret lt Inr seq have "ys = acc" "t' = t"
            by (simp_all add: x_def Let_def)
          moreover have "accumulated d cfg i end' t [] t"
            by (rule accumulated_stop[OF Inr]) (use seq True in \<open>simp_all add: x_def\<close>)
          ultimately show ?thesis by simp
        next
          case False
          with ret lt Inr seq
          have "accumulate d cfg (i + 1) end' (acc @ [x])
                  (t + word_of_nat (TxLenSize d + TxSize d x)) = Inr (ys, t')"
            by (simp add: x_def Let_def)
          from "1.IH"(1)[OF lt Inr x_def seq refl False this]
          obtain zs where zs: "ys = (acc @ [x]) @ zs"
            "accumulated d cfg (i + 1) end' (t + word_of_nat (TxLenSize d + TxSize d x)) zs t'"
            by blast
          have "accumulated d cfg i end' t (x # zs) t'"
            by (rule accumulated_Cons[OF lt Inr x_def _ _ zs(2)]) (use seq False in simp_all)
          with zs(1) show ?thesis by simp
        qed
      next
        case nseq: False
        with ret lt Inr
        have "accumulate d cfg (i + 1) end' (acc @ [x]) t = Inr (ys, t')"
          by (simp add: x_def Let_def)
        from "1.IH"(2)[OF lt Inr x_def nseq this]
        obtain zs where zs: "ys = (acc @ [x]) @ zs"
          "accumulated d cfg (i + 1) end' t zs t'"
          by blast
        have "accumulated d cfg i end' t (x # zs) t'"
          by (rule accumulated_Cons[OF lt Inr x_def _ _ zs(2)]) (use nseq in simp_all)
        with zs(1) show ?thesis by simp
      qed
    qed
  qed
qed

subsection \<open>The serialize-and-prune loop\<close>

lemma loop_body_eq:
  "(case GenSequencerBatchParams d s (BlockOffset cfg) xs of
      Inl err \<Rightarrow> Some (Inl (BatchParamsErr err), w)
    | Inr batchParams \<Rightarrow>
        (case Serialize d batchParams of
           Inl err \<Rightarrow> Some (Inl (SerializeErr err), w)
         | Inr batchArguments \<Rightarrow>
             (let batchCallData = appendSequencerBatchID d @ batchArguments in
              if length batchCallData > unat (MaxTxSize cfg) then
                loop d cfg s (prune xs) n g
                  (w @ [LogPrunedBatch (length xs) (length (prune xs))])
              else
                (let w' = w @ [ObserveNumElementsPerBatch (length xs),
                               LogBatchConstructed (length xs) (length batchCallData)]
                 in case NewKeyedTransactorWithChainID d of
                      Inl err \<Rightarrow> Some (Inl (TransactorErr err), w')
                    | Inr opts \<Rightarrow>
                        (case RawTransact d opts n g batchCallData of
                           Inl err \<Rightarrow>
                             Some (Inl (TransactErr err),
                                   w' @ [EvRawTransact n g batchCallData])
                         | Inr tx \<Rightarrow>
                             Some (Inr tx, w' @ [EvRawTransact n g batchCallData]))))))
   = (if overBudget d cfg s xs
      then loop d cfg s (prune xs) n g (w @ [LogPrunedBatch (length xs) (length (prune xs))])
      else Some (finish d cfg s xs n g w))"
  by (simp add: overBudget_def finish_def Let_def split: sum.splits)

lemma pruneLoop_unfold:
  "pruneLoop d cfg s xs n g w =
     (if overBudget d cfg s xs
      then pruneLoop d cfg s (prune xs) n g
             (w @ [LogPrunedBatch (length xs) (length (prune xs))])
      else Some (finish d cfg s xs n g w))"
  by (subst pruneLoop.simps) (rule loop_body_eq)

text \<open>A call of the loop that returns has pruned \<open>m\<close> times and left by its last iteration.\<close>

lemma pruneLoop_sound:
  assumes ret: "pruneLoop d cfg s xs n g w = Some res"
  shows "\<exists>m. \<not> overBudget d cfg s ((prune ^^ m) xs) \<and>
             res = finish d cfg s ((prune ^^ m) xs) n g (w @ pruneLogs m xs)"
proof (rule pruneLoop.raw_induct
    [where P = "\<lambda>d cfg s xs n g w res. \<exists>m. \<not> overBudget d cfg s ((prune ^^ m) xs) \<and>
             res = finish d cfg s ((prune ^^ m) xs) n g (w @ pruneLogs m xs)", OF _ ret],
    goal_cases)
  case (1 loop d cfg s xs n g w res)
  note IH = 1(1)
  from 1(2)
  have body: "(if overBudget d cfg s xs
      then loop d cfg s (prune xs) n g (w @ [LogPrunedBatch (length xs) (length (prune xs))])
      else Some (finish d cfg s xs n g w)) = Some res"
    by (simp only: loop_body_eq)
  show ?case
  proof (cases "overBudget d cfg s xs")
    case True
    with body
    have "loop d cfg s (prune xs) n g
            (w @ [LogPrunedBatch (length xs) (length (prune xs))]) = Some res"
      by simp
    from IH[OF this] obtain m where
      m: "\<not> overBudget d cfg s ((prune ^^ m) (prune xs))"
         "res = finish d cfg s ((prune ^^ m) (prune xs)) n g
            ((w @ [LogPrunedBatch (length xs) (length (prune xs))]) @ pruneLogs m (prune xs))"
      by blast
    show ?thesis
      by (rule exI[of _ "Suc m"]) (use m in \<open>simp add: funpow_swap1\<close>)
  next
    case False
    with body have "res = finish d cfg s xs n g w" by simp
    with False show ?thesis
      by (intro exI[of _ 0]) simp
  qed
qed

lemma nine_tenths: "(n::nat) * 9 div 10 = n - (n + 9) div 10"
  by linarith

lemma length_prune_less: "xs \<noteq> [] \<Longrightarrow> length (prune xs) < length xs"
  by (cases xs) (simp_all add: prune_def Let_def)

lemma funpow_prune_Nil: "(prune ^^ m) [] = []"
  by (induction m) (simp_all add: prune_def)

lemma funpow_prune_take: "\<exists>k. (prune ^^ m) xs = take k xs"
proof (induction m)
  case 0
  have "(prune ^^ 0) xs = take (length xs) xs" by simp
  then show ?case by blast
next
  case (Suc m)
  then obtain k where "(prune ^^ m) xs = take k xs" by blast
  then have "(prune ^^ Suc m) xs = take (min ((length (take k xs) * 9) div 10) k) xs"
    by (simp add: prune_def Let_def)
  then show ?case by blast
qed

text \<open>
  The loop returns whenever the calldata of the empty batch fits (or the empty batch
  does not serialize): every pruning step of a non-empty slice shortens it.
\<close>

lemma pruneLoop_returns:
  assumes "\<not> overBudget d cfg s []"
  shows "\<exists>res. pruneLoop d cfg s xs n g w = Some res"
proof (induction "length xs" arbitrary: xs w rule: less_induct)
  case less
  show ?case
  proof (cases "overBudget d cfg s xs")
    case True
    with assms have "xs \<noteq> []" by auto
    then have "length (prune xs) < length xs" by (rule length_prune_less)
    from less[OF this] True show ?thesis
      by (subst pruneLoop_unfold) simp
  next
    case False
    then show ?thesis by (subst pruneLoop_unfold) simp
  qed
qed

text \<open>
  When the calldata of the empty batch is too long, the loop started on the empty slice
  never leaves: pruning the empty slice gives the empty slice.
\<close>

lemma pruneLoop_diverges:
  assumes over: "overBudget d cfg s []"
  shows "pruneLoop d cfg s [] n g w = None"
proof (cases "pruneLoop d cfg s [] n g w")
  case None
  then show ?thesis .
next
  case (Some res)
  from pruneLoop_sound[OF Some] obtain m where "\<not> overBudget d cfg s ((prune ^^ m) [])"
    by blast
  with over show ?thesis by (simp add: funpow_prune_Nil)
qed


subsection \<open>The outcome of a call of SubmitBatchTx\<close>

lemma published_append: "published (u @ v) = published u @ published v"
  by (induction u rule: published.induct) simp_all

lemma published_pruneLogs: "published (pruneLogs m xs) = []"
  by (induction m xs rule: pruneLogs.induct) simp_all

lemma SubmitBatchTx_Some:
  assumes "SubmitBatchTx d cfg start end' n g w = Some (r, w')"
  shows "(\<exists>err. accumulate d cfg start end' [] 0 = Inl err \<and> r = Inl err \<and>
              w' = w @ [LogSubmittingBatchTx start end' g]) \<or>
         (\<exists>zs t m. accumulate d cfg start end' [] 0 = Inr (zs, t) \<and>
              \<not> overBudget d cfg (word_of_int \<bar>start\<bar>) ((prune ^^ m) zs) \<and>
              (r, w') = finish d cfg (word_of_int \<bar>start\<bar>) ((prune ^^ m) zs) n g
                          ((w @ [LogSubmittingBatchTx start end' g]) @ pruneLogs m zs))"
proof (cases "accumulate d cfg start end' [] 0")
  case (Inl err)
  with assms show ?thesis by (simp add: SubmitBatchTx_def)
next
  case (Inr p)
  obtain zs t where p: "p = (zs, t)" by (cases p)
  with assms Inr
  have "pruneLoop d cfg (word_of_int \<bar>start\<bar>) zs n g (w @ [LogSubmittingBatchTx start end' g])
          = Some (r, w')"
    by (simp add: SubmitBatchTx_def)
  from pruneLoop_sound[OF this] Inr p show ?thesis by blast
qed

text \<open>What the leaving iteration does, by outcome.\<close>

lemma finish_cases:
  assumes fit: "\<not> overBudget d cfg s ys"
    and fin: "finish d cfg s ys n g w1 = (r, w')"
  shows "(\<exists>e. r = Inl e \<and> beforeTransact e \<and> published w' = published w1) \<or>
         (\<exists>p a opts. GenSequencerBatchParams d s (BlockOffset cfg) ys = Inr p \<and>
              Serialize d p = Inr a \<and>
              length (appendSequencerBatchID d @ a) \<le> unat (MaxTxSize cfg) \<and>
              NewKeyedTransactorWithChainID d = Inr opts \<and>
              r = (case RawTransact d opts n g (appendSequencerBatchID d @ a) of
                     Inl e \<Rightarrow> Inl (TransactErr e) | Inr tx \<Rightarrow> Inr tx) \<and>
              w' = w1 @ [ObserveNumElementsPerBatch (length ys),
                         LogBatchConstructed (length ys)
                           (length (appendSequencerBatchID d @ a)),
                         EvRawTransact n g (appendSequencerBatchID d @ a)])"
  using fit fin
  by (auto simp add: overBudget_def finish_def Let_def published_append split: sum.splits)

lemma accumulate_Inl:
  "accumulate d cfg i end' acc t = Inl err \<Longrightarrow> \<exists>e. err = BlockFetchErr e"
proof (induction d cfg i end' acc t rule: accumulate.induct)
  case (1 d cfg i end' acc t)
  note ret = "1.prems"[unfolded accumulate.simps[of d cfg i end' acc t]]
  show ?case
  proof (cases "i < end'")
    case False
    with ret show ?thesis by simp
  next
    case lt: True
    show ?thesis
    proof (cases "BlockByNumber d i")
      case (Inl e)
      with ret lt show ?thesis by auto
    next
      case (Inr b)
      define x where "x = BatchElementFromBlock d b"
      show ?thesis
      proof (cases "IsSequencerTx d x")
        case seq: True
        show ?thesis
        proof (cases "MaxTxSize cfg < t + word_of_nat (TxLenSize d + TxSize d x)")
          case True
          with ret lt Inr seq show ?thesis by (simp add: x_def Let_def)
        next
          case False
          with ret lt Inr seq
          have "accumulate d cfg (i + 1) end' (acc @ [x])
                  (t + word_of_nat (TxLenSize d + TxSize d x)) = Inl err"
            by (simp add: x_def Let_def)
          from "1.IH"(1)[OF lt Inr x_def seq refl False this] show ?thesis .
        qed
      next
        case nseq: False
        with ret lt Inr
        have "accumulate d cfg (i + 1) end' (acc @ [x]) t = Inl err"
          by (simp add: x_def Let_def)
        from "1.IH"(2)[OF lt Inr x_def nseq this] show ?thesis .
      qed
    qed
  qed
qed

lemma take_prefix_props:
  assumes acc: "accumulated d cfg start end' t zs t'"
  shows "int (length (take k zs)) \<le> max 0 (end' - start) \<and>
         (\<forall>j<length (take k zs). \<exists>b. BlockByNumber d (start + int j) = Inr b \<and>
            take k zs ! j = BatchElementFromBlock d b)"
proof -
  from acc have len: "int (length zs) \<le> max 0 (end' - start)"
    and nth: "\<And>j. j < length zs \<Longrightarrow> \<exists>b. BlockByNumber d (start + int j) = Inr b \<and>
                          zs ! j = BatchElementFromBlock d b"
    unfolding accumulated_def by blast+
  have "int (length (take k zs)) \<le> int (length zs)" by simp
  with len have l: "int (length (take k zs)) \<le> max 0 (end' - start)" by linarith
  have "\<exists>b. BlockByNumber d (start + int j) = Inr b \<and>
            take k zs ! j = BatchElementFromBlock d b" if "j < length (take k zs)" for j
  proof -
    from that have "j < length zs" "j < k" by simp_all
    with nth[of j] show ?thesis by simp
  qed
  with l show ?thesis by blast
qed

text \<open>The outcome of a returning call, when a transaction was handed to RawTransact.\<close>

lemma SubmitBatchTx_published:
  assumes ret: "SubmitBatchTx d cfg start end' n g w = Some (r, w')"
  shows "(\<exists>e. r = Inl e \<and> beforeTransact e \<and> published w' = published w) \<or>
         (\<exists>elems p a opts ws.
            int (length elems) \<le> max 0 (end' - start) \<and>
            (\<forall>j<length elems. \<exists>b. BlockByNumber d (start + int j) = Inr b \<and>
               elems ! j = BatchElementFromBlock d b) \<and>
            GenSequencerBatchParams d (word_of_int \<bar>start\<bar>) (BlockOffset cfg) elems = Inr p \<and>
            Serialize d p = Inr a \<and>
            length (appendSequencerBatchID d @ a) \<le> unat (MaxTxSize cfg) \<and>
            NewKeyedTransactorWithChainID d = Inr opts \<and>
            r = (case RawTransact d opts n g (appendSequencerBatchID d @ a) of
                   Inl e \<Rightarrow> Inl (TransactErr e) | Inr tx \<Rightarrow> Inr tx) \<and>
            published ws = [] \<and>
            w' = w @ [LogSubmittingBatchTx start end' g] @ ws @
                   [ObserveNumElementsPerBatch (length elems),
                    LogBatchConstructed (length elems) (length (appendSequencerBatchID d @ a)),
                    EvRawTransact n g (appendSequencerBatchID d @ a)])"
  using SubmitBatchTx_Some[OF ret]
proof (elim disjE exE conjE)
  fix err
  assume a: "accumulate d cfg start end' [] 0 = Inl err" "r = Inl err"
    "w' = w @ [LogSubmittingBatchTx start end' g]"
  from accumulate_Inl[OF a(1)] have "\<exists>e. err = BlockFetchErr e" .
  with a show ?thesis by (auto simp add: published_append)
next
  fix zs t m
  assume acc: "accumulate d cfg start end' [] 0 = Inr (zs, t)"
    and fit: "\<not> overBudget d cfg (word_of_int \<bar>start\<bar>) ((prune ^^ m) zs)"
    and fin: "(r, w') = finish d cfg (word_of_int \<bar>start\<bar>) ((prune ^^ m) zs) n g
                          ((w @ [LogSubmittingBatchTx start end' g]) @ pruneLogs m zs)"
  from accumulate_accumulated[OF acc] have A: "accumulated d cfg start end' 0 zs t" by simp
  from funpow_prune_take obtain k where k: "(prune ^^ m) zs = take k zs" by blast
  note P = take_prefix_props[OF A, of k]
  from finish_cases[OF fit fin[symmetric]]
  show ?thesis
  proof (elim disjE exE conjE)
    fix e assume "r = Inl e" "beforeTransact e"
      "published w' = published ((w @ [LogSubmittingBatchTx start end' g]) @ pruneLogs m zs)"
    then show ?thesis by (simp add: published_append published_pruneLogs)
  next
    fix p a opts
    assume "GenSequencerBatchParams d (word_of_int \<bar>start\<bar>) (BlockOffset cfg) ((prune ^^ m) zs) = Inr p"
      "Serialize d p = Inr a"
      "length (appendSequencerBatchID d @ a) \<le> unat (MaxTxSize cfg)"
      "NewKeyedTransactorWithChainID d = Inr opts"
      "r = (case RawTransact d opts n g (appendSequencerBatchID d @ a) of
                     Inl e \<Rightarrow> Inl (TransactErr e) | Inr tx \<Rightarrow> Inr tx)"
      "w' = ((w @ [LogSubmittingBatchTx start end' g]) @ pruneLogs m zs) @
              [ObserveNumElementsPerBatch (length ((prune ^^ m) zs)),
                         LogBatchConstructed (length ((prune ^^ m) zs))
                           (length (appendSequencerBatchID d @ a)),
                         EvRawTransact n g (appendSequencerBatchID d @ a)]"
    with P k have "int (length (take k zs)) \<le> max 0 (end' - start) \<and>
            (\<forall>j<length (take k zs). \<exists>b. BlockByNumber d (start + int j) = Inr b \<and>
               take k zs ! j = BatchElementFromBlock d b) \<and>
            GenSequencerBatchParams d (word_of_int \<bar>start\<bar>) (BlockOffset cfg) (take k zs) = Inr p \<and>
            Serialize d p = Inr a \<and>
            length (appendSequencerBatchID d @ a) \<le> unat (MaxTxSize cfg) \<and>
            NewKeyedTransactorWithChainID d = Inr opts \<and>
            r = (case RawTransact d opts n g (appendSequencerBatchID d @ a) of
                   Inl e \<Rightarrow> Inl (TransactErr e) | Inr tx \<Rightarrow> Inr tx) \<and>
            published (pruneLogs m zs) = [] \<and>
            w' = w @ [LogSubmittingBatchTx start end' g] @ pruneLogs m zs @
                   [ObserveNumElementsPerBatch (length (take k zs)),
                    LogBatchConstructed (length (take k zs)) (length (appendSequencerBatchID d @ a)),
                    EvRawTransact n g (appendSequencerBatchID d @ a)]"
      by (simp add: published_pruneLogs)
    then show ?thesis by blast
  qed
qed

subsection \<open>Runs of the concrete instance\<close>

lemma example_accumulate:
  "accumulate (exampleDriver 0 exampleChain) (exampleConfig 45) 0 5 [] 0 =
     Inr ([(True, 10), (False, 0), (True, 10), (True, 10)], 39)"
  by (simp add: accumulate.simps Let_def exampleDriver_def exampleChain_def exampleConfig_def)

lemma example_range:
  "GetBatchBlockRange (exampleDriver 0 exampleChain) (exampleConfig 45) = Inr (0, 5)"
  by (simp add: GetBatchBlockRange_def exampleDriver_def exampleChain_def exampleConfig_def)

lemma example_bad_range:
  "GetBatchBlockRange (exampleDriver 9 exampleChain) (exampleConfig 45) = Inl (InvalidRange 5 9)"
  by (simp add: GetBatchBlockRange_def exampleDriver_def exampleChain_def exampleConfig_def)

lemma example_tiny_overBudget:
  "overBudget (exampleDriver 0 exampleChain) (exampleConfig 3) 0 []"
  by (simp add: overBudget_def exampleDriver_def exampleConfig_def)

lemma example_tiny_accumulate:
  "accumulate (exampleDriver 0 exampleChain) (exampleConfig 3) 0 5 [] 0 = Inr ([], 0)"
  by (simp add: accumulate.simps Let_def exampleDriver_def exampleChain_def exampleConfig_def)

lemma example_fetch_error:
  "accumulate (exampleDriver 0 exampleChain) (exampleConfig 1000) 0 6 [] 0 =
     Inl (BlockFetchErr ''not found'')"
  by (simp add: accumulate.simps Let_def exampleDriver_def exampleChain_def exampleConfig_def)

lemma example_SubmitBatchTx_w:
  "SubmitBatchTx (exampleDriver 0 exampleChain) (exampleConfig 45) 0 5 7 1 w =
     Some (Inr (7, 1, [0xd0, 0xf8, 0x93, 0x44] @ replicate 37 0),
           w @ [LogSubmittingBatchTx 0 5 1, LogPrunedBatch 4 3, ObserveNumElementsPerBatch 3,
            LogBatchConstructed 3 41,
            EvRawTransact 7 1 ([0xd0, 0xf8, 0x93, 0x44] @ replicate 37 0)])"
  unfolding SubmitBatchTx_def example_accumulate
  apply (simp add: Let_def)
  apply (subst pruneLoop_unfold)
  apply (simp add: overBudget_def prune_def exampleDriver_def exampleConfig_def)
  apply (subst pruneLoop_unfold)
  apply (simp add: overBudget_def finish_def prune_def Let_def exampleDriver_def exampleConfig_def)
  done

section \<open>The claims\<close>

subsection \<open>C1: the published calldata fits\<close>

text \<open>
  C1. Whenever \<open>SubmitBatchTx\<close> returns a transaction, the events it added end with the
  one call of \<^verbatim>\<open>RawTransact\<close>, whose calldata is the method selector followed by the
  serialized batch parameters of some element list, and this calldata is at most
  \<open>MaxTxSize\<close> bytes long.
\<close>

theorem SubmitBatchTx_calldata_within_MaxTxSize:
  assumes "SubmitBatchTx d cfg start end' nonce gasPrice w = Some (Inr tx, w')"
  shows "\<exists>ws elems p batchArguments.
      GenSequencerBatchParams d (word_of_int \<bar>start\<bar>) (BlockOffset cfg) elems = Inr p \<and>
      Serialize d p = Inr batchArguments \<and>
      w' = w @ ws @
             [EvRawTransact nonce gasPrice (appendSequencerBatchID d @ batchArguments)] \<and>
      length (appendSequencerBatchID d @ batchArguments) \<le> unat (MaxTxSize cfg)"
  using SubmitBatchTx_published[OF assms]
proof (elim disjE exE conjE)
  fix e assume "Inr tx = Inl e"
  then show ?thesis by simp
next
  fix elems p a opts ws
  assume "GenSequencerBatchParams d (word_of_int \<bar>start\<bar>) (BlockOffset cfg) elems = Inr p"
    "Serialize d p = Inr a"
    "length (appendSequencerBatchID d @ a) \<le> unat (MaxTxSize cfg)"
    "w' = w @ [LogSubmittingBatchTx start end' gasPrice] @ ws @
                   [ObserveNumElementsPerBatch (length elems),
                    LogBatchConstructed (length elems) (length (appendSequencerBatchID d @ a)),
                    EvRawTransact nonce gasPrice (appendSequencerBatchID d @ a)]"
  then have "GenSequencerBatchParams d (word_of_int \<bar>start\<bar>) (BlockOffset cfg) elems = Inr p \<and>
      Serialize d p = Inr a \<and>
      w' = w @ ([LogSubmittingBatchTx start end' gasPrice] @ ws @
                   [ObserveNumElementsPerBatch (length elems),
                    LogBatchConstructed (length elems) (length (appendSequencerBatchID d @ a))]) @
             [EvRawTransact nonce gasPrice (appendSequencerBatchID d @ a)] \<and>
      length (appendSequencerBatchID d @ a) \<le> unat (MaxTxSize cfg)"
    by simp
  then show ?thesis by blast
qed

text \<open>
  On the concrete instance with \<open>MaxTxSize = 45\<close> and the range \<open>[0, 5)\<close>: the call
  returns a transaction, and its 41 bytes of calldata fit.
\<close>

theorem SubmitBatchTx_calldata_within_MaxTxSize_witness:
  "SubmitBatchTx (exampleDriver 0 exampleChain) (exampleConfig 45) 0 5 7 1 [] =
     Some (Inr (7, 1, [0xd0, 0xf8, 0x93, 0x44] @ replicate 37 0),
           [LogSubmittingBatchTx 0 5 1, LogPrunedBatch 4 3, ObserveNumElementsPerBatch 3,
            LogBatchConstructed 3 41,
            EvRawTransact 7 1 ([0xd0, 0xf8, 0x93, 0x44] @ replicate 37 0)]) \<and>
   (\<exists>ws elems p batchArguments.
      GenSequencerBatchParams (exampleDriver 0 exampleChain) (word_of_int \<bar>0\<bar>)
        (BlockOffset (exampleConfig 45)) elems = Inr p \<and>
      Serialize (exampleDriver 0 exampleChain) p = Inr batchArguments \<and>
      [LogSubmittingBatchTx 0 5 1, LogPrunedBatch 4 3, ObserveNumElementsPerBatch 3,
       LogBatchConstructed 3 41,
       EvRawTransact 7 1 ([0xd0, 0xf8, 0x93, 0x44] @ replicate 37 0)] = [] @ ws @
             [EvRawTransact 7 1
                (appendSequencerBatchID (exampleDriver 0 exampleChain) @ batchArguments)] \<and>
      length (appendSequencerBatchID (exampleDriver 0 exampleChain) @ batchArguments)
        \<le> unat (MaxTxSize (exampleConfig 45)))"
proof -
  have run: "SubmitBatchTx (exampleDriver 0 exampleChain) (exampleConfig 45) 0 5 7 1 [] =
     Some (Inr (7, 1, [0xd0, 0xf8, 0x93, 0x44] @ replicate 37 0),
           [LogSubmittingBatchTx 0 5 1, LogPrunedBatch 4 3, ObserveNumElementsPerBatch 3,
            LogBatchConstructed 3 41,
            EvRawTransact 7 1 ([0xd0, 0xf8, 0x93, 0x44] @ replicate 37 0)])"
    using example_SubmitBatchTx_w[of "[]"] by simp
  from run SubmitBatchTx_calldata_within_MaxTxSize[OF run] show ?thesis
    by (rule conjI)
qed

subsection \<open>C2: the pruning loop on the empty slice\<close>

text \<open>
  C2 says that the serialize-and-prune loop returns for every element list and every
  \<open>MaxTxSize\<close>. Lemma \<open>pruneLoop_returns\<close> shows that it does when the calldata of the
  empty batch fits, and lemma \<open>length_prune_less\<close> that a pruning step shortens every
  non-empty slice. On the empty slice the step \<open>(0 * 9) / 10 = 0\<close> changes nothing: with
  \<open>MaxTxSize = 3\<close>, less than the four bytes of the method selector, the loop started on
  the empty slice never returns.
\<close>

theorem pruneLoop_empty_never_returns:
  "pruneLoop (exampleDriver 0 exampleChain) (exampleConfig 3) 0 [] 7 1 [] = None"
  by (rule pruneLoop_diverges[OF example_tiny_overBudget])

subsection \<open>C3: a failed balance read\<close>

text \<open>
  C3 says that after a failed balance read the cycle still resolves the range and
  submits. On the concrete instance the cycle with a working balance read publishes a
  batch; the cycle over the same ledgers with a failing balance read only logs the error.
\<close>

theorem pollCycle_balance_failure_counterexample:
  "pollCycle (exampleService (Inr 5)) (exampleDriver 0 exampleChain) (exampleConfig 45) [] =
     Some [SetETHBalance 5, LogFetchingRange, LogBlockRange 0 5,
           LogAttemptingBatchTx 0 5 7 1, LogSubmittingBatchTx 0 5 1, LogPrunedBatch 4 3,
           ObserveNumElementsPerBatch 3, LogBatchConstructed 3 41,
           EvRawTransact 7 1 ([0xd0, 0xf8, 0x93, 0x44] @ replicate 37 0),
           LogSubmittedBatchTx 0 5 7 1, ObserveBatchSizeInBytes, LogPublished,
           IncBatchesSubmitted, SetSubmissionGasUsed] \<and>
   pollCycle (exampleService (Inl ''timeout'')) (exampleDriver 0 exampleChain)
       (exampleConfig 45) [] =
     Some [LogBalanceError ''timeout'']"
proof -
  have "pollCycle (exampleService (Inr 5)) (exampleDriver 0 exampleChain) (exampleConfig 45) [] =
     Some [SetETHBalance 5, LogFetchingRange, LogBlockRange 0 5,
           LogAttemptingBatchTx 0 5 7 1, LogSubmittingBatchTx 0 5 1, LogPrunedBatch 4 3,
           ObserveNumElementsPerBatch 3, LogBatchConstructed 3 41,
           EvRawTransact 7 1 ([0xd0, 0xf8, 0x93, 0x44] @ replicate 37 0),
           LogSubmittedBatchTx 0 5 7 1, ObserveBatchSizeInBytes, LogPublished,
           IncBatchesSubmitted, SetSubmissionGasUsed]"
    unfolding pollCycle_def example_range
    by (simp add: exampleService_def sendTx_def example_SubmitBatchTx_w)
  moreover
  have "pollCycle (exampleService (Inl ''timeout'')) (exampleDriver 0 exampleChain)
          (exampleConfig 45) [] = Some [LogBalanceError ''timeout'']"
    by (simp add: pollCycle_def exampleService_def)
  ultimately show ?thesis by (rule conjI)
qed

text \<open>
  C3, amended. If the balance read fails, the cycle logs the error and ends: it sets no
  balance metric, resolves no range and attempts no submission.
\<close>

theorem pollCycle_balance_failure_ends_cycle:
  assumes "BalanceAt s = Inl err"
  shows "pollCycle s d cfg w = Some (w @ [LogBalanceError err])"
  using assms by (simp add: pollCycle_def)

theorem pollCycle_balance_failure_ends_cycle_witness:
  "BalanceAt (exampleService (Inl ''no route to host'')) = Inl ''no route to host'' \<and>
   pollCycle (exampleService (Inl ''no route to host'')) (exampleDriver 0 exampleChain)
       (exampleConfig 45) [LogNoUpdates 0 0] =
     Some ([LogNoUpdates 0 0] @ [LogBalanceError ''no route to host''])"
proof -
  have b: "BalanceAt (exampleService (Inl ''no route to host'')) = Inl ''no route to host''"
    by (simp add: exampleService_def)
  from b pollCycle_balance_failure_ends_cycle[OF b] show ?thesis
    by (rule conjI)
qed

subsection \<open>C4: what the encoder returns\<close>

text \<open>
  C4 says that the encoder returns the possibly shrunk end height together with the
  payload. On the concrete instance the range \<open>[0, 5)\<close> is requested and three elements
  are encoded, so the batch covers \<open>[0, 3)\<close>; the call returns the transaction alone, and
  the closure of the caller reports the requested end 5 after the call.
\<close>

theorem sendTx_end_counterexample:
  "sendTx (exampleDriver 0 exampleChain) (exampleConfig 45) 0 5 7 1 [] =
     Some (Inr (7, 1, [0xd0, 0xf8, 0x93, 0x44] @ replicate 37 0),
           [LogAttemptingBatchTx 0 5 7 1, LogSubmittingBatchTx 0 5 1, LogPrunedBatch 4 3,
            ObserveNumElementsPerBatch 3, LogBatchConstructed 3 41,
            EvRawTransact 7 1 ([0xd0, 0xf8, 0x93, 0x44] @ replicate 37 0),
            LogSubmittedBatchTx 0 5 7 1, ObserveBatchSizeInBytes])"
  by (simp add: sendTx_def example_SubmitBatchTx_w)

text \<open>
  C4, amended. A successful call returns exactly the transaction that \<^verbatim>\<open>RawTransact\<close>
  returned for the calldata, and nothing else. The batch encodes the elements of a list
  \<open>elems\<close> with \<open>start + length elems \<le> end\<close> (for a non-empty range); this possibly
  shrunk count is recorded in the \<^verbatim>\<open>NumElementsPerBatch\<close> metric and in the log, the
  calldata that is published is the serialization of exactly these elements, and the
  caller keeps reporting the requested \<open>end\<close>.
\<close>

theorem sendTx_returns_transaction_only:
  assumes "sendTx d cfg start end' nonce gasPrice w = Some (Inr tx, w')"
  shows "\<exists>ws elems p a opts.
      int (length elems) \<le> max 0 (end' - start) \<and>
      GenSequencerBatchParams d (word_of_int \<bar>start\<bar>) (BlockOffset cfg) elems = Inr p \<and>
      Serialize d p = Inr a \<and>
      NewKeyedTransactorWithChainID d = Inr opts \<and>
      RawTransact d opts nonce gasPrice (appendSequencerBatchID d @ a) = Inr tx \<and>
      w' = w @ [LogAttemptingBatchTx start end' nonce gasPrice,
                LogSubmittingBatchTx start end' gasPrice] @ ws @
               [ObserveNumElementsPerBatch (length elems),
                LogBatchConstructed (length elems) (length (appendSequencerBatchID d @ a)),
                EvRawTransact nonce gasPrice (appendSequencerBatchID d @ a),
                LogSubmittedBatchTx start end' nonce gasPrice,
                ObserveBatchSizeInBytes]"
proof -
  from assms obtain w2 where
    sub: "SubmitBatchTx d cfg start end' nonce gasPrice
            (w @ [LogAttemptingBatchTx start end' nonce gasPrice]) = Some (Inr tx, w2)"
    and w': "w' = w2 @ [LogSubmittedBatchTx start end' nonce gasPrice, ObserveBatchSizeInBytes]"
    by (auto simp add: sendTx_def split: option.splits sum.splits)
  from SubmitBatchTx_published[OF sub] show ?thesis
  proof (elim disjE exE conjE)
    fix e assume "Inr tx = Inl e"
    then show ?thesis by simp
  next
    fix elems p a opts ws
    assume "int (length elems) \<le> max 0 (end' - start)"
      "GenSequencerBatchParams d (word_of_int \<bar>start\<bar>) (BlockOffset cfg) elems = Inr p"
      "Serialize d p = Inr a"
      "NewKeyedTransactorWithChainID d = Inr opts"
      "Inr tx = (case RawTransact d opts nonce gasPrice (appendSequencerBatchID d @ a) of
                   Inl e \<Rightarrow> Inl (TransactErr e) | Inr tx \<Rightarrow> Inr tx)"
      "w2 = (w @ [LogAttemptingBatchTx start end' nonce gasPrice]) @
              [LogSubmittingBatchTx start end' gasPrice] @ ws @
                   [ObserveNumElementsPerBatch (length elems),
                    LogBatchConstructed (length elems) (length (appendSequencerBatchID d @ a)),
                    EvRawTransact nonce gasPrice (appendSequencerBatchID d @ a)]"
    with w' have "int (length elems) \<le> max 0 (end' - start) \<and>
      GenSequencerBatchParams d (word_of_int \<bar>start\<bar>) (BlockOffset cfg) elems = Inr p \<and>
      Serialize d p = Inr a \<and>
      NewKeyedTransactorWithChainID d = Inr opts \<and>
      RawTransact d opts nonce gasPrice (appendSequencerBatchID d @ a) = Inr tx \<and>
      w' = w @ [LogAttemptingBatchTx start end' nonce gasPrice,
                LogSubmittingBatchTx start end' gasPrice] @ ws @
               [ObserveNumElementsPerBatch (length elems),
                LogBatchConstructed (length elems) (length (appendSequencerBatchID d @ a)),
                EvRawTransact nonce gasPrice (appendSequencerBatchID d @ a),
                LogSubmittedBatchTx start end' nonce gasPrice,
                ObserveBatchSizeInBytes]"
      by (auto split: sum.splits)
    then show ?thesis by blast
  qed
qed

text \<open>The amended statement on a second run of the instance, from a non-empty event list.\<close>

theorem sendTx_returns_transaction_only_witness:
  "\<exists>ws elems p a opts.
      int (length elems) \<le> max 0 (5 - 0) \<and>
      GenSequencerBatchParams (exampleDriver 0 exampleChain) (word_of_int \<bar>0\<bar>)
        (BlockOffset (exampleConfig 45)) elems = Inr p \<and>
      Serialize (exampleDriver 0 exampleChain) p = Inr a \<and>
      NewKeyedTransactorWithChainID (exampleDriver 0 exampleChain) = Inr opts \<and>
      RawTransact (exampleDriver 0 exampleChain) opts 7 1
        (appendSequencerBatchID (exampleDriver 0 exampleChain) @ a) =
        Inr (7, 1, [0xd0, 0xf8, 0x93, 0x44] @ replicate 37 0) \<and>
      [LogFetchingRange, LogAttemptingBatchTx 0 5 7 1, LogSubmittingBatchTx 0 5 1,
       LogPrunedBatch 4 3, ObserveNumElementsPerBatch 3, LogBatchConstructed 3 41,
       EvRawTransact 7 1 ([0xd0, 0xf8, 0x93, 0x44] @ replicate 37 0),
       LogSubmittedBatchTx 0 5 7 1, ObserveBatchSizeInBytes] =
        [LogFetchingRange] @ [LogAttemptingBatchTx 0 5 7 1, LogSubmittingBatchTx 0 5 1] @ ws @
          [ObserveNumElementsPerBatch (length elems),
           LogBatchConstructed (length elems)
             (length (appendSequencerBatchID (exampleDriver 0 exampleChain) @ a)),
           EvRawTransact 7 1 (appendSequencerBatchID (exampleDriver 0 exampleChain) @ a),
           LogSubmittedBatchTx 0 5 7 1, ObserveBatchSizeInBytes]"
proof -
  have run: "sendTx (exampleDriver 0 exampleChain) (exampleConfig 45) 0 5 7 1 [LogFetchingRange] =
     Some (Inr (7, 1, [0xd0, 0xf8, 0x93, 0x44] @ replicate 37 0),
           [LogFetchingRange, LogAttemptingBatchTx 0 5 7 1, LogSubmittingBatchTx 0 5 1,
            LogPrunedBatch 4 3, ObserveNumElementsPerBatch 3, LogBatchConstructed 3 41,
            EvRawTransact 7 1 ([0xd0, 0xf8, 0x93, 0x44] @ replicate 37 0),
            LogSubmittedBatchTx 0 5 7 1, ObserveBatchSizeInBytes])"
    by (simp add: sendTx_def example_SubmitBatchTx_w)
  show ?thesis
    by (rule sendTx_returns_transaction_only[OF run])
qed

subsection \<open>C5: the range check\<close>

text \<open>
  C5. \<open>GetBatchBlockRange\<close> returns the range error exactly when both reads succeed and
  the computed end (head height plus one) is below the computed start (committed elements
  plus block offset); a range it returns has \<open>start \<le> end\<close>; and a cycle in which it
  returns an error ends with the log of that error, without handing anything to the
  transaction manager and without publishing.
\<close>

theorem GetBatchBlockRange_range_check:
  "(GetBatchBlockRange d cfg = Inl (InvalidRange e s) \<longleftrightarrow>
      (\<exists>totalElements number.
          GetTotalElements d = Inr totalElements \<and> HeaderByNumber d = Inr number \<and>
          s = totalElements + uint (BlockOffset cfg) \<and> e = number + 1 \<and> e < s)) \<and>
   (GetBatchBlockRange d cfg = Inr (start, end') \<longrightarrow> start \<le> end') \<and>
   (GetBatchBlockRange d cfg = Inl err \<longrightarrow>
      pollCycle sv d cfg w =
        Some (w @ (case BalanceAt sv of
                     Inl berr \<Rightarrow> [LogBalanceError berr]
                   | Inr balance \<Rightarrow>
                       [SetETHBalance balance, LogFetchingRange, LogRangeError err])) \<and>
      (\<forall>w'. pollCycle sv d cfg w = Some w' \<longrightarrow> published w' = published w))"
proof (intro conjI)
  show "GetBatchBlockRange d cfg = Inl (InvalidRange e s) \<longleftrightarrow>
      (\<exists>totalElements number.
          GetTotalElements d = Inr totalElements \<and> HeaderByNumber d = Inr number \<and>
          s = totalElements + uint (BlockOffset cfg) \<and> e = number + 1 \<and> e < s)"
    by (auto simp add: GetBatchBlockRange_def Let_def split: sum.splits if_splits)
  show "GetBatchBlockRange d cfg = Inr (start, end') \<longrightarrow> start \<le> end'"
    by (auto simp add: GetBatchBlockRange_def Let_def split: sum.splits if_splits)
  show "GetBatchBlockRange d cfg = Inl err \<longrightarrow>
      pollCycle sv d cfg w =
        Some (w @ (case BalanceAt sv of
                     Inl berr \<Rightarrow> [LogBalanceError berr]
                   | Inr balance \<Rightarrow>
                       [SetETHBalance balance, LogFetchingRange, LogRangeError err])) \<and>
      (\<forall>w'. pollCycle sv d cfg w = Some w' \<longrightarrow> published w' = published w)"
    by (cases "BalanceAt sv") (simp_all add: pollCycle_def published_append)
qed

text \<open>
  On the instance whose primary ledger counts 9 committed elements while the secondary
  ledger has 5 blocks, and on the consistent instance.
\<close>

theorem GetBatchBlockRange_range_check_witness:
  "GetBatchBlockRange (exampleDriver 9 exampleChain) (exampleConfig 45) =
     Inl (InvalidRange 5 9) \<and>
   (\<exists>totalElements number.
      GetTotalElements (exampleDriver 9 exampleChain) = Inr totalElements \<and>
      HeaderByNumber (exampleDriver 9 exampleChain) = Inr number \<and>
      9 = totalElements + uint (BlockOffset (exampleConfig 45)) \<and> 5 = number + 1 \<and>
      (5 :: int) < 9) \<and>
   pollCycle (exampleService (Inr 5)) (exampleDriver 9 exampleChain) (exampleConfig 45) [] =
     Some [SetETHBalance 5, LogFetchingRange, LogRangeError (InvalidRange 5 9)] \<and>
   GetBatchBlockRange (exampleDriver 0 exampleChain) (exampleConfig 45) = Inr (0, 5) \<and>
   (0 :: int) \<le> 5"
  using GetBatchBlockRange_range_check
          [of "exampleDriver 9 exampleChain" "exampleConfig 45" 5 9 0 0
              "InvalidRange 5 9" "exampleService (Inr 5)" "[]"]
        GetBatchBlockRange_range_check
          [of "exampleDriver 0 exampleChain" "exampleConfig 45" 0 0 0 5
              "InvalidRange 0 0" "exampleService (Inr 5)" "[]"]
        example_bad_range example_range
  by (simp add: exampleService_def)

subsection \<open>C6: one pruning step\<close>

text \<open>
  C6 says that a pruning step drops the last 10% of the elements, rounded down. For five
  elements that would drop none; the source keeps \<open>(5 * 9) / 10 = 4\<close>.
\<close>

theorem prune_rounding_counterexample:
  "prune [1, 2, 3, 4, 5 :: nat] \<noteq>
     take (length [1, 2, 3, 4, 5 :: nat] - length [1, 2, 3, 4, 5 :: nat] div 10)
       [1, 2, 3, 4, 5]"
  by (simp add: prune_def)

text \<open>
  C6, amended. Whenever the serialized calldata exceeds \<open>MaxTxSize\<close>, the loop goes on
  with the first \<open>(oldLen * 9) / 10\<close> elements (nine tenths, rounded down): it drops the
  last tenth rounded up, \<open>\<lceil>oldLen / 10\<rceil>\<close> elements, logs the step and serializes again.
\<close>

theorem pruneLoop_prune_step:
  assumes "GenSequencerBatchParams d s (BlockOffset cfg) xs = Inr p"
    and "Serialize d p = Inr a"
    and "length (appendSequencerBatchID d @ a) > unat (MaxTxSize cfg)"
  shows "pruneLoop d cfg s xs n g w =
           pruneLoop d cfg s (prune xs) n g
             (w @ [LogPrunedBatch (length xs) (length (prune xs))]) \<and>
         prune xs = take (length xs - (length xs + 9) div 10) xs \<and>
         length (prune xs) = length xs * 9 div 10"
proof -
  from assms have "overBudget d cfg s xs"
    by (simp add: overBudget_def)
  then have 1: "pruneLoop d cfg s xs n g w =
           pruneLoop d cfg s (prune xs) n g
             (w @ [LogPrunedBatch (length xs) (length (prune xs))])"
    by (subst pruneLoop_unfold) simp
  have "length xs * 9 div 10 = length xs - (length xs + 9) div 10"
    by (rule nine_tenths)
  then have 2: "prune xs = take (length xs - (length xs + 9) div 10) xs"
    by (simp add: prune_def Let_def)
  have 3: "length (prune xs) = length xs * 9 div 10"
    by (simp add: prune_def Let_def)
  from 1 2 3 show ?thesis by blast
qed

text \<open>
  The step on the four elements that the accumulation loop of the instance collects: 54
  bytes of calldata against \<open>MaxTxSize = 45\<close>, three elements kept.
\<close>

theorem pruneLoop_prune_step_witness:
  "length (appendSequencerBatchID (exampleDriver 0 exampleChain) @ replicate 50 0)
     > unat (MaxTxSize (exampleConfig 45)) \<and>
   pruneLoop (exampleDriver 0 exampleChain) (exampleConfig 45) 0
       [(True, 10), (False, 0), (True, 10), (True, 10)] 7 1 [] =
     pruneLoop (exampleDriver 0 exampleChain) (exampleConfig 45) 0
       [(True, 10), (False, 0), (True, 10)] 7 1 [LogPrunedBatch 4 3] \<and>
   prune [(True, 10 :: nat), (False, 0), (True, 10), (True, 10)] =
     [(True, 10), (False, 0), (True, 10)]"
proof -
  have g: "GenSequencerBatchParams (exampleDriver 0 exampleChain) 0
             (BlockOffset (exampleConfig 45))
             [(True, 10), (False, 0), (True, 10), (True, 10)] =
           Inr (0, [(True, 10), (False, 0), (True, 10), (True, 10)])"
    by (simp add: exampleDriver_def exampleConfig_def)
  have s: "Serialize (exampleDriver 0 exampleChain)
             (0, [(True, 10), (False, 0), (True, 10), (True, 10)]) = Inr (replicate 50 0)"
    by (simp add: exampleDriver_def)
  have l: "length (appendSequencerBatchID (exampleDriver 0 exampleChain) @ replicate 50 0)
             > unat (MaxTxSize (exampleConfig 45))"
    by (simp add: exampleDriver_def exampleConfig_def)
  have p: "prune [(True, 10 :: nat), (False, 0), (True, 10), (True, 10)] =
             [(True, 10), (False, 0), (True, 10)]"
    by (simp add: prune_def)
  have n4: "length [(True, 10 :: nat), (False, 0), (True, 10), (True, 10)] = 4"
    by simp
  have n3: "length [(True, 10 :: nat), (False, 0), (True, 10)] = 3"
    by simp
  from pruneLoop_prune_step[OF g s l, of 7 1 "[]", unfolded p n4 n3]
  have "pruneLoop (exampleDriver 0 exampleChain) (exampleConfig 45) 0
       [(True, 10), (False, 0), (True, 10), (True, 10)] 7 1 [] =
     pruneLoop (exampleDriver 0 exampleChain) (exampleConfig 45) 0
       [(True, 10), (False, 0), (True, 10)] 7 1 [LogPrunedBatch 4 3]"
    by simp
  with l p show ?thesis by blast
qed

subsection \<open>C7: a budget that nothing fits\<close>

text \<open>
  C7 says that the encoder fails with an explicit error when even the smallest payload
  does not fit. With \<open>MaxTxSize = 3\<close> the accumulation loop of the instance collects no
  element, the calldata of the empty batch has 15 bytes, and \<open>SubmitBatchTx\<close> neither
  returns an error nor publishes: it never returns.
\<close>

theorem SubmitBatchTx_nothing_fits_never_returns:
  "SubmitBatchTx (exampleDriver 0 exampleChain) (exampleConfig 3) 0 5 7 1 [] = None"
  unfolding SubmitBatchTx_def example_tiny_accumulate
  by (simp add: pruneLoop_diverges[OF example_tiny_overBudget])

subsection \<open>C8: the running size estimate\<close>

text \<open>
  C8 says that every externally-enqueued element adds a length-prefix-sized unit to the
  running total. On a range of one such element the total stays 0, while \<open>TxLenSize\<close>
  is 3.
\<close>

theorem accumulate_enqueued_counterexample:
  "accumulate (exampleDriver 0 [(False, 0)]) (exampleConfig 45) 0 1 [] 0 =
     Inr ([(False, 0)], 0) \<and>
   (0 :: uint64) \<noteq> word_of_nat (TxLenSize (exampleDriver 0 [(False, 0)]))"
  by (simp add: accumulate.simps Let_def exampleDriver_def exampleConfig_def)

text \<open>
  C8, amended. The running total counts the locally-sequenced elements only: it is the
  sum of \<open>TxLenSize + txLen\<close> over the accumulated elements with \<open>IsSequencerTx\<close> (as a
  \<^verbatim>\<open>uint64\<close>), externally-enqueued elements add nothing, and it never exceeds
  \<open>MaxTxSize\<close>. When the loop stops before \<open>end\<close>, the next block is locally sequenced and
  adding its \<open>TxLenSize + txLen\<close> to the total exceeds \<open>MaxTxSize\<close>. The true serialized
  size of the accumulated elements, with or without the method selector, is at least the
  running total, for every encoder that writes at least \<open>TxLenSize + txLen\<close> bytes for
  each locally-sequenced element of the list it is given (the estimate is conservative,
  as the comment in the source says: the batch contexts come on top).
\<close>

theorem accumulate_running_total:
  assumes "accumulate d cfg start end' [] 0 = Inr (elems, totalTxSize)"
  shows "totalTxSize =
           word_of_nat (sum_list (map (\<lambda>x. TxLenSize d + TxSize d x)
                                     (filter (IsSequencerTx d) elems))) \<and>
         totalTxSize \<le> MaxTxSize cfg \<and>
         (int (length elems) < end' - start \<longrightarrow>
            (\<exists>b. BlockByNumber d (start + int (length elems)) = Inr b \<and>
                 IsSequencerTx d (BatchElementFromBlock d b) \<and>
                 MaxTxSize cfg <
                   totalTxSize +
                     word_of_nat (TxLenSize d + TxSize d (BatchElementFromBlock d b)))) \<and>
         ((\<forall>xs p a.
              GenSequencerBatchParams d (word_of_int \<bar>start\<bar>) (BlockOffset cfg) xs = Inr p \<and>
              Serialize d p = Inr a \<longrightarrow>
              sum_list (map (\<lambda>x. TxLenSize d + TxSize d x) (filter (IsSequencerTx d) xs))
                \<le> length a) \<longrightarrow>
          (\<forall>p batchArguments.
              GenSequencerBatchParams d (word_of_int \<bar>start\<bar>) (BlockOffset cfg) elems = Inr p \<and>
              Serialize d p = Inr batchArguments \<longrightarrow>
              unat totalTxSize \<le> length batchArguments \<and>
              unat totalTxSize \<le> length (appendSequencerBatchID d @ batchArguments)))"
proof -
  from accumulate_accumulated[OF assms]
  have "accumulated d cfg start end' 0 elems totalTxSize" by simp
  then have tot: "totalTxSize = 0 + word_of_nat (estimate d elems)"
    and le: "0 \<le> MaxTxSize cfg \<longrightarrow> totalTxSize \<le> MaxTxSize cfg"
    and stop: "int (length elems) < end' - start \<longrightarrow>
            (\<exists>b. BlockByNumber d (start + int (length elems)) = Inr b \<and>
                 IsSequencerTx d (BatchElementFromBlock d b) \<and>
                 MaxTxSize cfg <
                   totalTxSize +
                     word_of_nat (TxLenSize d + TxSize d (BatchElementFromBlock d b)))"
    unfolding accumulated_def by blast+
  from tot have sum: "totalTxSize =
           word_of_nat (sum_list (map (\<lambda>x. TxLenSize d + TxSize d x)
                                     (filter (IsSequencerTx d) elems)))"
    by (simp add: estimate_def)
  from le have fits: "totalTxSize \<le> MaxTxSize cfg" by simp
  have "unat totalTxSize
          \<le> sum_list (map (\<lambda>x. TxLenSize d + TxSize d x) (filter (IsSequencerTx d) elems))"
    unfolding sum by (simp add: unat_of_nat)
  then have size: "(\<forall>xs p a.
              GenSequencerBatchParams d (word_of_int \<bar>start\<bar>) (BlockOffset cfg) xs = Inr p \<and>
              Serialize d p = Inr a \<longrightarrow>
              sum_list (map (\<lambda>x. TxLenSize d + TxSize d x) (filter (IsSequencerTx d) xs))
                \<le> length a) \<longrightarrow>
          (\<forall>p batchArguments.
              GenSequencerBatchParams d (word_of_int \<bar>start\<bar>) (BlockOffset cfg) elems = Inr p \<and>
              Serialize d p = Inr batchArguments \<longrightarrow>
              unat totalTxSize \<le> length batchArguments \<and>
              unat totalTxSize \<le> length (appendSequencerBatchID d @ batchArguments))"
    by fastforce
  from sum fits stop size show ?thesis by blast
qed

text \<open>
  On the instance: three locally-sequenced elements of 10 bytes and one enqueued element
  give the total 39, and the fifth block would bring it to 52, above 45. The encoder of
  the instance writes 11 bytes more than the sum, for every list: the four accumulated
  elements serialize to 50 bytes, 54 with the selector, against the total 39.
\<close>

theorem accumulate_running_total_witness:
  "accumulate (exampleDriver 0 exampleChain) (exampleConfig 45) 0 5 [] 0 =
     Inr ([(True, 10), (False, 0), (True, 10), (True, 10)], 39) \<and>
   (39 :: uint64) \<le> MaxTxSize (exampleConfig 45) \<and>
   (\<exists>b. BlockByNumber (exampleDriver 0 exampleChain) (0 + int 4) = Inr b \<and>
        IsSequencerTx (exampleDriver 0 exampleChain)
          (BatchElementFromBlock (exampleDriver 0 exampleChain) b) \<and>
        MaxTxSize (exampleConfig 45) <
          39 + word_of_nat (TxLenSize (exampleDriver 0 exampleChain) +
                 TxSize (exampleDriver 0 exampleChain)
                   (BatchElementFromBlock (exampleDriver 0 exampleChain) b))) \<and>
   GenSequencerBatchParams (exampleDriver 0 exampleChain) (word_of_int \<bar>0\<bar>)
       (BlockOffset (exampleConfig 45)) [(True, 10), (False, 0), (True, 10), (True, 10)] =
     Inr (0, [(True, 10), (False, 0), (True, 10), (True, 10)]) \<and>
   Serialize (exampleDriver 0 exampleChain)
       (0, [(True, 10), (False, 0), (True, 10), (True, 10)]) = Inr (replicate 50 0) \<and>
   unat (39 :: uint64) \<le> length (replicate 50 (0 :: byte)) \<and>
   unat (39 :: uint64)
     \<le> length (appendSequencerBatchID (exampleDriver 0 exampleChain) @ replicate 50 0)"
proof -
  note total = accumulate_running_total[OF example_accumulate]
  have enc: "\<forall>xs p a.
      GenSequencerBatchParams (exampleDriver 0 exampleChain) (word_of_int \<bar>0\<bar>)
        (BlockOffset (exampleConfig 45)) xs = Inr p \<and>
      Serialize (exampleDriver 0 exampleChain) p = Inr a \<longrightarrow>
      sum_list (map (\<lambda>x. TxLenSize (exampleDriver 0 exampleChain) +
                          TxSize (exampleDriver 0 exampleChain) x)
                 (filter (IsSequencerTx (exampleDriver 0 exampleChain)) xs))
        \<le> length a"
    by (auto simp add: exampleDriver_def)
  have g: "GenSequencerBatchParams (exampleDriver 0 exampleChain) (word_of_int \<bar>0\<bar>)
       (BlockOffset (exampleConfig 45)) [(True, 10), (False, 0), (True, 10), (True, 10)] =
     Inr (0, [(True, 10), (False, 0), (True, 10), (True, 10)])"
    by (simp add: exampleDriver_def exampleConfig_def)
  have s: "Serialize (exampleDriver 0 exampleChain)
       (0, [(True, 10), (False, 0), (True, 10), (True, 10)]) = Inr (replicate 50 0)"
    by (simp add: exampleDriver_def)
  from total enc g s
  have size: "unat (39 :: uint64) \<le> length (replicate 50 (0 :: byte)) \<and>
     unat (39 :: uint64)
       \<le> length (appendSequencerBatchID (exampleDriver 0 exampleChain) @ replicate 50 0)"
    by blast
  from total have rest: "(39 :: uint64) \<le> MaxTxSize (exampleConfig 45) \<and>
   (\<exists>b. BlockByNumber (exampleDriver 0 exampleChain) (0 + int 4) = Inr b \<and>
        IsSequencerTx (exampleDriver 0 exampleChain)
          (BatchElementFromBlock (exampleDriver 0 exampleChain) b) \<and>
        MaxTxSize (exampleConfig 45) <
          39 + word_of_nat (TxLenSize (exampleDriver 0 exampleChain) +
                 TxSize (exampleDriver 0 exampleChain)
                   (BatchElementFromBlock (exampleDriver 0 exampleChain) b)))"
    by simp
  from example_accumulate rest g s size show ?thesis by blast
qed

subsection \<open>C9: a batch is a contiguous prefix of the range\<close>

text \<open>
  C9. Whenever a call of \<open>SubmitBatchTx\<close> hands a transaction to \<^verbatim>\<open>RawTransact\<close>, the
  calldata is the selector followed by the serialization of a list \<open>elems\<close> of at most
  \<open>end - start\<close> elements whose \<open>j\<close>-th element is the batch element of the block at height
  \<open>start + j\<close>: the blocks of a prefix of the range, in ledger order, none skipped.
\<close>

theorem SubmitBatchTx_contiguous_prefix:
  assumes "SubmitBatchTx d cfg start end' nonce gasPrice w = Some (r, w')"
    and "published w' \<noteq> published w"
  shows "\<exists>elems p a.
      int (length elems) \<le> max 0 (end' - start) \<and>
      (\<forall>j<length elems. \<exists>b. BlockByNumber d (start + int j) = Inr b \<and>
                              elems ! j = BatchElementFromBlock d b) \<and>
      GenSequencerBatchParams d (word_of_int \<bar>start\<bar>) (BlockOffset cfg) elems = Inr p \<and>
      Serialize d p = Inr a \<and>
      published w' = published w @ [(nonce, gasPrice, appendSequencerBatchID d @ a)]"
  using SubmitBatchTx_published[OF assms(1)]
proof (elim disjE exE conjE)
  fix e assume "published w' = published w"
  with assms(2) show ?thesis by simp
next
  fix elems p a opts ws
  assume "int (length elems) \<le> max 0 (end' - start)"
    "\<forall>j<length elems. \<exists>b. BlockByNumber d (start + int j) = Inr b \<and>
               elems ! j = BatchElementFromBlock d b"
    "GenSequencerBatchParams d (word_of_int \<bar>start\<bar>) (BlockOffset cfg) elems = Inr p"
    "Serialize d p = Inr a"
    "published ws = []"
    "w' = w @ [LogSubmittingBatchTx start end' gasPrice] @ ws @
                   [ObserveNumElementsPerBatch (length elems),
                    LogBatchConstructed (length elems) (length (appendSequencerBatchID d @ a)),
                    EvRawTransact nonce gasPrice (appendSequencerBatchID d @ a)]"
  then have "int (length elems) \<le> max 0 (end' - start) \<and>
      (\<forall>j<length elems. \<exists>b. BlockByNumber d (start + int j) = Inr b \<and>
                              elems ! j = BatchElementFromBlock d b) \<and>
      GenSequencerBatchParams d (word_of_int \<bar>start\<bar>) (BlockOffset cfg) elems = Inr p \<and>
      Serialize d p = Inr a \<and>
      published w' = published w @ [(nonce, gasPrice, appendSequencerBatchID d @ a)]"
    by (simp add: published_append)
  then show ?thesis by blast
qed

text \<open>On the instance, from an event list that already holds an earlier publication.\<close>

theorem SubmitBatchTx_contiguous_prefix_witness:
  "SubmitBatchTx (exampleDriver 0 exampleChain) (exampleConfig 45) 0 5 7 1
       [EvRawTransact 6 1 []] =
     Some (Inr (7, 1, [0xd0, 0xf8, 0x93, 0x44] @ replicate 37 0),
           [EvRawTransact 6 1 []] @
           [LogSubmittingBatchTx 0 5 1, LogPrunedBatch 4 3, ObserveNumElementsPerBatch 3,
            LogBatchConstructed 3 41,
            EvRawTransact 7 1 ([0xd0, 0xf8, 0x93, 0x44] @ replicate 37 0)]) \<and>
   published ([EvRawTransact 6 1 []] @
           [LogSubmittingBatchTx 0 5 1, LogPrunedBatch 4 3, ObserveNumElementsPerBatch 3,
            LogBatchConstructed 3 41,
            EvRawTransact 7 1 ([0xd0, 0xf8, 0x93, 0x44] @ replicate 37 0)])
     \<noteq> published [EvRawTransact 6 1 []] \<and>
   (\<exists>elems p a.
      int (length elems) \<le> max 0 (5 - 0) \<and>
      (\<forall>j<length elems. \<exists>b. BlockByNumber (exampleDriver 0 exampleChain) (0 + int j) = Inr b \<and>
          elems ! j = BatchElementFromBlock (exampleDriver 0 exampleChain) b) \<and>
      GenSequencerBatchParams (exampleDriver 0 exampleChain) (word_of_int \<bar>0\<bar>)
        (BlockOffset (exampleConfig 45)) elems = Inr p \<and>
      Serialize (exampleDriver 0 exampleChain) p = Inr a \<and>
      published ([EvRawTransact 6 1 []] @
           [LogSubmittingBatchTx 0 5 1, LogPrunedBatch 4 3, ObserveNumElementsPerBatch 3,
            LogBatchConstructed 3 41,
            EvRawTransact 7 1 ([0xd0, 0xf8, 0x93, 0x44] @ replicate 37 0)]) =
        published [EvRawTransact 6 1 []] @
          [(7, 1, appendSequencerBatchID (exampleDriver 0 exampleChain) @ a)])"
proof -
  note run = example_SubmitBatchTx_w[of "[EvRawTransact 6 1 []]"]
  have changed: "published ([EvRawTransact 6 1 []] @
           [LogSubmittingBatchTx 0 5 1, LogPrunedBatch 4 3, ObserveNumElementsPerBatch 3,
            LogBatchConstructed 3 41,
            EvRawTransact 7 1 ([0xd0, 0xf8, 0x93, 0x44] @ replicate 37 0)])
     \<noteq> published [EvRawTransact 6 1 []]"
    by simp
  from run changed SubmitBatchTx_contiguous_prefix[OF run changed] show ?thesis
    by (intro conjI)
qed

subsection \<open>C10: nothing is broadcast before the last step\<close>

text \<open>
  C10. If \<open>SubmitBatchTx\<close> returns an error of block fetching, batch-parameter
  generation, serialization or transactor construction, the list of published
  transactions is unchanged. In every returning call the list is unchanged or grows by
  one transaction, whose \<^verbatim>\<open>RawTransact\<close> event is the last event of the call and whose
  calldata passed the size check.
\<close>

theorem SubmitBatchTx_publishes_last:
  assumes "SubmitBatchTx d cfg start end' nonce gasPrice w = Some (r, w')"
  shows "(\<forall>err. r = Inl err \<and> beforeTransact err \<longrightarrow> published w' = published w) \<and>
         (published w' = published w \<or>
          (\<exists>pre batchCallData.
              w' = pre @ [EvRawTransact nonce gasPrice batchCallData] \<and>
              published pre = published w \<and>
              length batchCallData \<le> unat (MaxTxSize cfg)))"
  using SubmitBatchTx_published[OF assms]
proof (elim disjE exE conjE)
  fix e assume "r = Inl e" "beforeTransact e" "published w' = published w"
  then show ?thesis by simp
next
  fix elems p a opts ws
  assume len: "length (appendSequencerBatchID d @ a) \<le> unat (MaxTxSize cfg)"
    and r: "r = (case RawTransact d opts nonce gasPrice (appendSequencerBatchID d @ a) of
                   Inl e \<Rightarrow> Inl (TransactErr e) | Inr tx \<Rightarrow> Inr tx)"
    and ws: "published ws = []"
    and w': "w' = w @ [LogSubmittingBatchTx start end' gasPrice] @ ws @
                   [ObserveNumElementsPerBatch (length elems),
                    LogBatchConstructed (length elems) (length (appendSequencerBatchID d @ a)),
                    EvRawTransact nonce gasPrice (appendSequencerBatchID d @ a)]"
  from r have 1: "\<forall>err. r = Inl err \<and> beforeTransact err \<longrightarrow> published w' = published w"
    by (auto split: sum.splits)
  define pre where "pre = w @ [LogSubmittingBatchTx start end' gasPrice] @ ws @
                   [ObserveNumElementsPerBatch (length elems),
                    LogBatchConstructed (length elems) (length (appendSequencerBatchID d @ a))]"
  have "w' = pre @ [EvRawTransact nonce gasPrice (appendSequencerBatchID d @ a)]"
    by (simp add: pre_def w')
  moreover have "published pre = published w"
    by (simp add: pre_def published_append ws)
  ultimately show ?thesis using 1 len by blast
qed

text \<open>
  On the instance: the range \<open>[0, 6)\<close> asks for a block the ledger does not have, the
  call returns the fetch error and publishes nothing; the range \<open>[0, 5)\<close> is published
  by the last event of its call.
\<close>

theorem SubmitBatchTx_publishes_last_witness:
  "SubmitBatchTx (exampleDriver 0 exampleChain) (exampleConfig 1000) 0 6 7 1 [] =
     Some (Inl (BlockFetchErr ''not found''), [LogSubmittingBatchTx 0 6 1]) \<and>
   beforeTransact (BlockFetchErr ''not found'') \<and>
   published [LogSubmittingBatchTx 0 6 1] = published [] \<and>
   (\<exists>pre batchCallData.
      [LogSubmittingBatchTx 0 5 1, LogPrunedBatch 4 3, ObserveNumElementsPerBatch 3,
       LogBatchConstructed 3 41,
       EvRawTransact 7 1 ([0xd0, 0xf8, 0x93, 0x44] @ replicate 37 0)] =
        pre @ [EvRawTransact 7 1 batchCallData] \<and>
      published pre = published [] \<and>
      length batchCallData \<le> unat (MaxTxSize (exampleConfig 45)))"
proof -
  have err: "SubmitBatchTx (exampleDriver 0 exampleChain) (exampleConfig 1000) 0 6 7 1 [] =
     Some (Inl (BlockFetchErr ''not found''), [LogSubmittingBatchTx 0 6 1])"
    by (simp add: SubmitBatchTx_def example_fetch_error)
  have ok: "SubmitBatchTx (exampleDriver 0 exampleChain) (exampleConfig 45) 0 5 7 1 [] =
     Some (Inr (7, 1, [0xd0, 0xf8, 0x93, 0x44] @ replicate 37 0),
           [LogSubmittingBatchTx 0 5 1, LogPrunedBatch 4 3, ObserveNumElementsPerBatch 3,
            LogBatchConstructed 3 41,
            EvRawTransact 7 1 ([0xd0, 0xf8, 0x93, 0x44] @ replicate 37 0)])"
    using example_SubmitBatchTx_w[of "[]"] by simp
  from SubmitBatchTx_publishes_last[OF err]
  have 1: "published [LogSubmittingBatchTx 0 6 1] = published []"
    by simp
  from SubmitBatchTx_publishes_last[OF ok]
  have 2: "\<exists>pre batchCallData.
      [LogSubmittingBatchTx 0 5 1, LogPrunedBatch 4 3, ObserveNumElementsPerBatch 3,
       LogBatchConstructed 3 41,
       EvRawTransact 7 1 ([0xd0, 0xf8, 0x93, 0x44] @ replicate 37 0)] =
        pre @ [EvRawTransact 7 1 batchCallData] \<and>
      published pre = published [] \<and>
      length batchCallData \<le> unat (MaxTxSize (exampleConfig 45))"
    by simp
  from err 1 2 show ?thesis by simp
qed

end
